theory Spec2Isabelle
  imports Main "HOL-Library.Word"
begin

section \<open>Values of the host language\<close>

text \<open>
  The RSA provider (src/lib/rsa.ts) is TypeScript over Node.js. A \<open>Buffer\<close> or
  \<open>Uint8Array\<close> is a list of bytes. An exception is a value: the class of the error
  thrown (\<open>TypeError\<close> or plain \<open>Error\<close>) with its message.
\<close>

type_synonym bytes = "8 word list"

datatype error = TypeError string | Error string

fun message :: "error \<Rightarrow> string" where
  "message (TypeError m) = m"
| "message (Error m) = m"

text \<open>
  What a property of a JWK object can hold: nothing (\<open>undefined\<close>), a string, a Buffer,
  a boolean (\<open>ext\<close>) or an array of strings (\<open>key_ops\<close>).
\<close>

datatype jsval = Undefined | Str string | Buf bytes | Bool bool | Strs "string list"

text \<open>
  An object as this file handles them: a Buffer (\<open>buffer = Some bytes\<close>, what
  \<open>Buffer.isBuffer\<close> tests) or a plain object, with its named properties; a property
  that was never written reads \<open>Undefined\<close>.
\<close>

record jsobject =
  buffer :: "bytes option"
  props :: "string \<Rightarrow> jsval"

definition Buffer_object :: "bytes \<Rightarrow> jsobject" where
  "Buffer_object b = \<lparr>buffer = Some b, props = (\<lambda>k. Undefined)\<rparr>"

definition set_prop :: "jsobject \<Rightarrow> string \<Rightarrow> jsval \<Rightarrow> jsobject" where
  "set_prop obj k v = obj\<lparr>props := (props obj)(k := v)\<rparr>"

text \<open>The truthiness test of \<open>if (v)\<close>: undefined, the empty string and false are falsy.\<close>

fun truthy :: "jsval \<Rightarrow> bool" where
  "truthy Undefined = False"
| "truthy (Str s) = (s \<noteq> [])"
| "truthy (Buf b) = True"
| "truthy (Bool b) = b"
| "truthy (Strs xs) = True"

text \<open>
  Objects the caller shares with the provider live in a store, addressed by reference:
  \<open>let jwk = keyData\<close> copies the reference, so a write through \<open>jwk\<close> is a write to
  the caller's object.
\<close>

type_synonym addr = nat
type_synonym store = "addr \<Rightarrow> jsobject"

section \<open>Strings\<close>

text \<open>Case mapping on the ASCII letters (the format and hash names are ASCII).\<close>

definition toLowerCase_char :: "char \<Rightarrow> char" where
  "toLowerCase_char ch =
     (case map_of (zip ''ABCDEFGHIJKLMNOPQRSTUVWXYZ'' ''abcdefghijklmnopqrstuvwxyz'') ch of
        None \<Rightarrow> ch | Some l \<Rightarrow> l)"

definition toUpperCase_char :: "char \<Rightarrow> char" where
  "toUpperCase_char ch =
     (case map_of (zip ''abcdefghijklmnopqrstuvwxyz'' ''ABCDEFGHIJKLMNOPQRSTUVWXYZ'') ch of
        None \<Rightarrow> ch | Some u \<Rightarrow> u)"

definition toLocaleLowerCase :: "string \<Rightarrow> string" where
  "toLocaleLowerCase s = map toLowerCase_char s"

definition toUpperCase :: "string \<Rightarrow> string" where
  "toUpperCase s = map toUpperCase_char s"

text \<open>\<open>buf.toString("hex")\<close>: two lower-case hexadecimal digits per byte.\<close>

definition hexdigit :: "nat \<Rightarrow> char" where
  "hexdigit k = ''0123456789abcdef'' ! k"

fun toString_hex :: "bytes \<Rightarrow> string" where
  "toString_hex [] = []"
| "toString_hex (b # bs) =
     hexdigit (unat b div 16) # hexdigit (unat b mod 16) # toString_hex bs"

text \<open>
  \<open>/(\d+)$/.exec(s)\<close>: the match is the longest run of decimal digits that ends the
  string; there is none (\<open>exec\<close> returns null) when the string does not end in a digit.
  The result is capture group 1.
\<close>

definition is_digit :: "char \<Rightarrow> bool" where
  "is_digit ch = (ch \<in> set ''0123456789'')"

definition exec_digits :: "string \<Rightarrow> string option" where
  "exec_digits s =
     (let ds = rev (takeWhile is_digit (rev s)) in if ds = [] then None else Some ds)"

section \<open>Algorithm descriptors and keys\<close>

text \<open>
  \<open>NodeAlgorithm\<close> with the members its extensions \<open>IRsaKeyGenParams\<close>,
  \<open>IRsaPssParams\<close> and \<open>IRsaOaepEncryptParams\<close> add; a member that is absent is
  \<open>None\<close>. \<open>hash\<close> is the name of the hash sub-descriptor \<open>alg.hash.name\<close>. The
  numbers are integers.
\<close>

record NodeAlgorithm =
  name :: string
  hash :: "string option"
  modulusLength :: "int option"
  publicExponent :: "bytes option"
  saltLength :: "int option"
  label :: "bytes option"

text \<open>The native key handle is opaque: a number that names it.\<close>

type_synonym native_key = nat

text \<open>
  Modelled from the spec: the class \<open>CryptoKey\<close> of ./key, which is not among the
  sources. The spec's CryptoKeyObject wraps a key handle with its metadata (algorithm
  descriptor, type, extractable flag, usages); the constructor
  \<open>new CryptoKey(key, alg, type, extractable, keyUsages)\<close> stores its five arguments.
\<close>

record CryptoKey =
  native :: native_key
  algorithm :: NodeAlgorithm
  type :: string
  extractable :: bool
  usages :: "string list"

definition new_CryptoKey ::
  "native_key \<Rightarrow> NodeAlgorithm \<Rightarrow> string \<Rightarrow> bool \<Rightarrow> string list \<Rightarrow> CryptoKey" where
  "new_CryptoKey key alg t ext keyUsages =
     \<lparr>native = key, algorithm = alg, type = t, extractable = ext, usages = keyUsages\<rparr>"

text \<open>
  The object literal \<open>{privateKey: ..., publicKey: ...}\<close> that \<open>Rsa.generateKey\<close> passes
  to its callback. The callbacks of the three variants read its property \<open>type\<close> and
  write its property \<open>usages\<close>; the literal has neither, so both start absent.
\<close>

record CryptoKeyPair =
  privateKey :: CryptoKey
  publicKey :: CryptoKey
  pair_type :: "string option"
  pair_usages :: "string list option"

section \<open>Collaborators\<close>

text \<open>
  \<open>native.KeyType\<close>. The test \<open>key_type ? "private" : "public"\<close> of \<open>importKey\<close> reads
  \<open>PUBLIC\<close> as falsy and \<open>PRIVATE\<close> as truthy.
\<close>

datatype KeyType = PUBLIC | PRIVATE

text \<open>
  What rsa.ts imports and this development does not define: the identifier check of the
  base class \<open>alg.AlgorithmBase\<close>, the base64url codec, and the native engine. Each is a
  parameter. An engine method answers its callback once, with an error or with a value
  (Node's convention); the two accessors of a key handle return at once.
\<close>

record collaborators =
  checkAlgorithmIdentifier :: "NodeAlgorithm option \<Rightarrow> error option"
  Base64Url_decode :: "jsval \<Rightarrow> error + bytes"
  Base64Url_encode :: "jsval \<Rightarrow> error + string"
  native_generateRsa :: "int option \<Rightarrow> int \<Rightarrow> error + native_key"
  native_importJwk :: "jsobject \<Rightarrow> KeyType \<Rightarrow> error + native_key"
  native_importPkcs8 :: "bytes \<Rightarrow> error + native_key"
  native_importSpki :: "bytes \<Rightarrow> error + native_key"
  native_modulusLength :: "native_key \<Rightarrow> int"
  native_publicExponent :: "native_key \<Rightarrow> bytes"
  native_exportJwk :: "native_key \<Rightarrow> KeyType \<Rightarrow> error + jsobject"
  native_exportSpki :: "native_key \<Rightarrow> error + bytes"
  native_exportPkcs8 :: "native_key \<Rightarrow> error + bytes"
  native_sign :: "native_key \<Rightarrow> string \<Rightarrow> bytes \<Rightarrow> error + bytes"
  native_verify :: "native_key \<Rightarrow> string \<Rightarrow> bytes \<Rightarrow> bytes \<Rightarrow> error + bool"
  native_RsaPssSign :: "native_key \<Rightarrow> string \<Rightarrow> int \<Rightarrow> bytes \<Rightarrow> error + bytes"
  native_RsaPssVerify ::
    "native_key \<Rightarrow> string \<Rightarrow> int \<Rightarrow> bytes \<Rightarrow> bytes \<Rightarrow> error + bool"

text \<open>The calls an operation makes to the native engine, in order, with their arguments.\<close>

datatype native_call =
    GenerateRsa "int option" int
  | ImportJwk addr jsobject KeyType
  | ImportPkcs8 bytes
  | ImportSpki bytes
  | ExportJwk native_key KeyType
  | ExportSpki native_key
  | ExportPkcs8 native_key
  | Sign native_key string bytes
  | Verify native_key string bytes bytes
  | RsaPssSign native_key string int bytes
  | RsaPssVerify native_key string int bytes bytes

text \<open>
  The two arguments \<open>(err, d)\<close> an operation passes to the caller's callback \<open>cb\<close>;
  \<open>None\<close> is \<open>null\<close>.
\<close>

type_synonym 'a completion = "error option \<times> 'a option"

definition failure :: "error \<Rightarrow> 'a completion" where
  "failure e = (Some e, None)"

definition success :: "'a \<Rightarrow> 'a completion" where
  "success d = (None, Some d)"

text \<open>An engine method that is handed \<open>cb\<close> itself: its answer is the completion.\<close>

definition forward :: "error + 'a \<Rightarrow> 'a completion" where
  "forward r = (case r of Inl err \<Rightarrow> (Some err, None) | Inr d \<Rightarrow> (None, Some d))"

section \<open>Validation\<close>

text \<open>
  Modelled from the spec: \<open>AlgorithmBase.checkAlgorithmHashedParams\<close> of ./alg, which
  is not among the sources: it requires a hash sub-descriptor.
\<close>

definition AlgorithmBase_checkAlgorithmHashedParams :: "NodeAlgorithm option \<Rightarrow> error option" where
  "AlgorithmBase_checkAlgorithmHashedParams alg =
     (case alg of
        None \<Rightarrow> Some (TypeError ''Cannot read property hash of undefined'')
      | Some a \<Rightarrow>
          (case hash a of
             None \<Rightarrow> Some (TypeError ''AlgorithmHashedParams: Missing required property hash'')
           | Some nm \<Rightarrow> None))"

text \<open>
  Modelled from the spec: the key-role guards \<open>checkPublicKey\<close> and \<open>checkPrivateKey\<close>
  of \<open>AlgorithmBase\<close> (./alg, not among the sources): they assert the key type the
  operation requires, and a mismatch fails with a descriptive error.
\<close>

definition checkPublicKey :: "CryptoKey \<Rightarrow> error option" where
  "checkPublicKey key =
     (if type key = ''public'' then None else Some (Error ''Key: the key is not a public key''))"

definition checkPrivateKey :: "CryptoKey \<Rightarrow> error option" where
  "checkPrivateKey key =
     (if type key = ''private'' then None else Some (Error ''Key: the key is not a private key''))"

definition HASH_ALGS :: "string list" where
  "HASH_ALGS = [''SHA-1'', ''SHA-224'', ''SHA-256'', ''SHA-384'', ''SHA-512'']"

definition Rsa_checkExponent :: "bytes \<Rightarrow> error option" where
  "Rsa_checkExponent exp =
     (let e = toString_hex exp in
      if e = ''03'' \<or> e = ''010001'' then None
      else Some (TypeError ''RsaKeyGenParams: Wrong publicExponent value''))"

text \<open>\<open>!alg.modulusLength\<close> holds for an absent member and for 0.\<close>

definition Rsa_checkRsaGenParams :: "NodeAlgorithm \<Rightarrow> error option" where
  "Rsa_checkRsaGenParams alg =
     (case modulusLength alg of
        None \<Rightarrow> Some (TypeError ''RsaKeyGenParams: modulusLength: Missing required property'')
      | Some m \<Rightarrow>
          if m = 0 then
            Some (TypeError ''RsaKeyGenParams: modulusLength: Missing required property'')
          else if m < 256 \<or> m > 16384 then
            Some (TypeError
              ''RsaKeyGenParams: The modulus length must be a multiple of 8 bits and >= 256 and <= 16384'')
          else if publicExponent alg = None then
            Some (TypeError ''RsaKeyGenParams: publicExponent: Missing or not a Uint8Array'')
          else None)"

text \<open>
  \<open>Rsa.checkAlgorithmHashedParams\<close> writes the upper-cased name back into the hash
  sub-descriptor: the descriptor is returned as the check leaves it.
\<close>

definition Rsa_checkAlgorithmHashedParams :: "NodeAlgorithm option \<Rightarrow> error + NodeAlgorithm" where
  "Rsa_checkAlgorithmHashedParams alg =
     (case AlgorithmBase_checkAlgorithmHashedParams alg of
        Some e \<Rightarrow> Inl e
      | None \<Rightarrow>
          (case alg of
             None \<Rightarrow> Inl (TypeError ''Cannot read property hash of undefined'')
           | Some a \<Rightarrow>
               (case hash a of
                  None \<Rightarrow> Inl (TypeError ''Cannot read property name of undefined'')
                | Some nm \<Rightarrow>
                    if toUpperCase nm \<notin> set HASH_ALGS then
                      Inl (Error ''AlgorithmHashedParams: Unknow hash algorithm in use'')
                    else Inr (a\<lparr>hash := Some (toUpperCase nm)\<rparr>))))"

text \<open>\<open>s.replace("-", "")\<close> removes the first hyphen only.\<close>

definition Rsa_wc2ssl :: "NodeAlgorithm \<Rightarrow> error + string" where
  "Rsa_wc2ssl alg =
     (case Rsa_checkAlgorithmHashedParams (Some alg) of
        Inl e \<Rightarrow> Inl e
      | Inr a \<Rightarrow>
          (case hash a of
             None \<Rightarrow> Inl (TypeError ''Cannot read property name of undefined'')
           | Some nm \<Rightarrow> Inr (remove1 (CHR ''-'') (toUpperCase nm))))"

text \<open>
  \<open>RsaPSS.checkRsaAlgorithmParams\<close>. \<open>!alg.saltLength\<close> holds for an absent member and
  for 0; \<open>alg.saltLength % 8\<close> is the remainder of the division that truncates towards
  zero, and is truthy when it is not 0.
\<close>

definition js_rem :: "int \<Rightarrow> int \<Rightarrow> int" where
  "js_rem a b = sgn a * (\<bar>a\<bar> mod \<bar>b\<bar>)"

definition RsaPSS_checkRsaAlgorithmParams :: "NodeAlgorithm \<Rightarrow> error option" where
  "RsaPSS_checkRsaAlgorithmParams alg =
     (case saltLength alg of
        None \<Rightarrow> Some (TypeError ''RsaPssAlgorithm: Parameter saltLength is required'')
      | Some n \<Rightarrow>
          if n = 0 then Some (TypeError ''RsaPssAlgorithm: Parameter saltLength is required'')
          else if js_rem n 8 \<noteq> 0 then
            Some (TypeError ''RsaPssAlgorithm: Parameter saltLength should be a multiple of 8'')
          else None)"

section \<open>The base class Rsa\<close>

text \<open>
  An operation returns the calls it made to the native engine and the completion it
  passed to \<open>cb\<close>. The synchronous part runs inside \<open>try { ... } catch (e) { cb(e, null) }\<close>,
  so an exception thrown there ends the operation as the failure \<open>e\<close>, with the calls
  made so far; the callback given to the engine runs once the engine has answered.
\<close>

text \<open>\<open>new Buffer(x)\<close> copies a byte array and throws on \<open>undefined\<close>.\<close>

definition new_Buffer :: "bytes option \<Rightarrow> error + bytes" where
  "new_Buffer x =
     (case x of
        None \<Rightarrow> Inl (TypeError ''must start with number, buffer, array or string'')
      | Some b \<Rightarrow> Inr b)"

definition Rsa_generateKey ::
  "collaborators \<Rightarrow> NodeAlgorithm \<Rightarrow> bool \<Rightarrow> string list
     \<Rightarrow> native_call list \<times> CryptoKeyPair completion" where
  "Rsa_generateKey c alg ext keyUsages =
     (let size = modulusLength alg in
      case new_Buffer (publicExponent alg) of
        Inl e \<Rightarrow> ([], failure e)
      | Inr exp \<Rightarrow>
          (case Rsa_checkExponent exp of
             Some e \<Rightarrow> ([], failure e)
           | None \<Rightarrow>
               let nExp = (if toString_hex exp = ''010001'' then 1 else 0) in
               ([GenerateRsa size nExp],
                case native_generateRsa c size nExp of
                  Inl err \<Rightarrow>
                    failure (Error (''Rsa: Can not generate new key'' @ [CHR 0x0A] @ message err))
                | Inr key \<Rightarrow>
                    success
                      \<lparr>privateKey = new_CryptoKey key alg ''private'' ext keyUsages,
                       publicKey = new_CryptoKey key alg ''public'' ext keyUsages,
                       pair_type = None, pair_usages = None\<rparr>)))"

text \<open>
  The properties of a JWK object are decoded one after the other, each written back
  into the same object; a decoder that throws leaves the earlier writes in place.
\<close>

fun decode_props :: "collaborators \<Rightarrow> string list \<Rightarrow> jsobject \<Rightarrow> jsobject \<times> error option" where
  "decode_props c [] jwk = (jwk, None)"
| "decode_props c (k # ks) jwk =
     (case Base64Url_decode c (props jwk k) of
        Inl e \<Rightarrow> (jwk, Some e)
      | Inr b \<Rightarrow> decode_props c ks (set_prop jwk k (Buf b)))"

text \<open>
  The callback of \<open>native.Key.importJwk\<close>, on a key: \<open>jwk.n.length * 8\<close> and
  \<open>new Uint8Array(jwk.e)\<close> read the two Buffers that \<open>importKey\<close> wrote before the
  call (the other shapes of the two properties do not arise).
\<close>

definition importJwk_key ::
  "jsobject \<Rightarrow> native_key \<Rightarrow> NodeAlgorithm \<Rightarrow> KeyType \<Rightarrow> bool \<Rightarrow> string list
     \<Rightarrow> CryptoKey completion" where
  "importJwk_key jwk key alg key_type ext keyUsages =
     (case props jwk ''n'' of
        Buf nb \<Rightarrow>
          (case props jwk ''e'' of
             Buf eb \<Rightarrow>
               success
                 (new_CryptoKey key
                    (alg\<lparr>modulusLength := Some (int (length nb) * 8), publicExponent := Some eb\<rparr>)
                    (if key_type = PRIVATE then ''private'' else ''public'') ext keyUsages)
           | _ \<Rightarrow> failure (TypeError ''jwk.e is not a Buffer''))
      | _ \<Rightarrow> failure (TypeError ''jwk.n is not a Buffer''))"

text \<open>
  \<open>Rsa.importKey\<close>. \<open>keyData\<close> is a reference into the store, and the store is
  returned as the call leaves it. The argument \<open>algorithm\<close> (here \<open>algo\<close>) may be \<open>undefined\<close> (\<open>None\<close>): the
  pkcs8 and spki branch checks nothing of it. In that branch the callback's handler is
  \<open>catch (e) { cb(err, null) }\<close>: it passes the engine's \<open>err\<close>, not the exception
  caught, so the error built from the format is dropped, and an exception thrown after a
  successful import (the write to \<open>rsa.algorithm.modulusLength\<close> when the descriptor is
  undefined) completes with \<open>cb(null, null)\<close>.
\<close>

definition Rsa_importKey ::
  "collaborators \<Rightarrow> store \<Rightarrow> string \<Rightarrow> addr \<Rightarrow> NodeAlgorithm option \<Rightarrow> bool \<Rightarrow> string list
     \<Rightarrow> store \<times> native_call list \<times> CryptoKey completion" where
  "Rsa_importKey c s format keyData algo ext keyUsages =
     (let lower_format = toLocaleLowerCase format in
      if lower_format = ''jwk'' then
        (case checkAlgorithmIdentifier c algo of
           Some e \<Rightarrow> (s, [], failure e)
         | None \<Rightarrow>
             (case Rsa_checkAlgorithmHashedParams algo of
                Inl e \<Rightarrow> (s, [], failure e)
              | Inr alg \<Rightarrow>
                  (case decode_props c [''n'', ''e''] (s keyData) of
                     (jwk1, Some e) \<Rightarrow> (s(keyData := jwk1), [], failure e)
                   | (jwk1, None) \<Rightarrow>
                       let key_type = (if truthy (props jwk1 ''d'') then PRIVATE else PUBLIC) in
                       (case (if truthy (props jwk1 ''d'')
                              then decode_props c [''d'', ''p'', ''q'', ''dp'', ''dq'', ''qi''] jwk1
                              else (jwk1, None)) of
                          (jwk2, Some e) \<Rightarrow> (s(keyData := jwk2), [], failure e)
                        | (jwk2, None) \<Rightarrow>
                            (s(keyData := jwk2), [ImportJwk keyData jwk2 key_type],
                             case native_importJwk c jwk2 key_type of
                               Inl err \<Rightarrow>
                                 failure (Error (''ImportKey: Can not import key from JWK''
                                   @ [CHR 0x0A] @ message err))
                             | Inr key \<Rightarrow> importJwk_key jwk2 key alg key_type ext keyUsages)))))
      else if lower_format = ''pkcs8'' \<or> lower_format = ''spki'' then
        (case buffer (s keyData) of
           None \<Rightarrow> (s, [], failure (Error ''ImportKey: keyData is not a Buffer''))
         | Some b \<Rightarrow>
             (s, [if lower_format = ''spki'' then ImportSpki b else ImportPkcs8 b],
              case (if lower_format = ''spki'' then native_importSpki c b else native_importPkcs8 c b) of
                Inl err \<Rightarrow> (Some err, None)
              | Inr key \<Rightarrow>
                  (case algo of
                     None \<Rightarrow> (None, None)
                   | Some alg \<Rightarrow>
                       success
                         (new_CryptoKey key
                            (alg\<lparr>modulusLength := Some (native_modulusLength c key * 8),
                                 publicExponent := Some (native_publicExponent c key)\<rparr>)
                            (if toLocaleLowerCase format = ''spki'' then ''public'' else ''private'')
                            ext keyUsages))))
      else
        (s, [], failure (Error (''ImportKey: Wrong format value '' @ [CHR 0x27] @ format
           @ [CHR 0x27]))))"

text \<open>
  The properties of the object the engine exported are encoded one after the other;
  the first encoder that throws ends the callback's \<open>try\<close> block.
\<close>

fun encode_props :: "collaborators \<Rightarrow> string list \<Rightarrow> jsobject \<Rightarrow> error + jsobject" where
  "encode_props c [] jwk = Inr jwk"
| "encode_props c (k # ks) jwk =
     (case Base64Url_encode c (props jwk k) of
        Inl e \<Rightarrow> Inl e
      | Inr t \<Rightarrow> encode_props c ks (set_prop jwk k (Str t)))"

text \<open>
  \<open>Rsa.exportKey\<close>. The callback of \<open>exportJwk\<close> does not look at \<open>err\<close>: when the
  engine answers with an error, \<open>data\<close> is undefined and reading \<open>jwk.e\<close> throws.
  \<open>exportSpki\<close> and \<open>exportPkcs8\<close> are handed \<open>cb\<close> itself. The function reads
  \<open>key.native\<close> and \<open>key.type\<close> and nothing else of the key.
\<close>

definition Rsa_exportKey ::
  "collaborators \<Rightarrow> string \<Rightarrow> CryptoKey \<Rightarrow> native_call list \<times> jsobject completion" where
  "Rsa_exportKey c format key =
     (let nkey = native key;
          t = (if type key = ''public'' then PUBLIC else PRIVATE);
          f = toLocaleLowerCase format in
      if f = ''jwk'' then
        ([ExportJwk nkey t],
         case native_exportJwk c nkey t of
           Inl err \<Rightarrow> failure (TypeError ''Cannot read property e of undefined'')
         | Inr data \<Rightarrow>
             (case encode_props c
                     ([''e'', ''n''] @
                      (if type key = ''private'' then [''d'', ''p'', ''q'', ''dp'', ''dq'', ''qi'']
                       else [])) data of
                Inl e \<Rightarrow> failure e
              | Inr jwk \<Rightarrow> success jwk))
      else if f = ''spki'' then
        (case checkPublicKey key of
           Some e \<Rightarrow> ([], failure e)
         | None \<Rightarrow> ([ExportSpki nkey], forward (map_sum id Buffer_object (native_exportSpki c nkey))))
      else if f = ''pkcs8'' then
        (case checkPrivateKey key of
           Some e \<Rightarrow> ([], failure e)
         | None \<Rightarrow> ([ExportPkcs8 nkey], forward (map_sum id Buffer_object (native_exportPkcs8 c nkey))))
      else
        ([], failure (Error (''ExportKey: Unknown export frmat '' @ [CHR 0x27] @ format
           @ [CHR 0x27]))))"

section \<open>The variants RsaPKCS1, RsaPSS and RsaOAEP\<close>

text \<open>
  The callback the three \<open>generateKey\<close> overrides give to \<open>Rsa.generateKey\<close>; they
  differ in the two usage arrays only. Its parameter \<open>key\<close> is declared a
  \<open>CryptoKey\<close>, and what \<open>Rsa.generateKey\<close> passes is the pair: \<open>key.type\<close> and
  \<open>key.usages\<close> are properties of the pair object.
\<close>

definition generateKey_callback ::
  "string list \<Rightarrow> string list \<Rightarrow> CryptoKeyPair completion \<Rightarrow> CryptoKeyPair completion" where
  "generateKey_callback public_usages private_usages r =
     (case fst r of
        Some err \<Rightarrow> (Some err, None)
      | None \<Rightarrow>
          (case snd r of
             None \<Rightarrow> failure (TypeError ''Cannot read property type of null'')
           | Some key \<Rightarrow>
               if pair_type key = Some ''public'' then
                 (None, Some (key\<lparr>pair_usages := Some public_usages\<rparr>))
               else (None, Some (key\<lparr>pair_usages := Some private_usages\<rparr>))))"

definition variant_generateKey ::
  "string list \<Rightarrow> string list \<Rightarrow> collaborators \<Rightarrow> NodeAlgorithm \<Rightarrow> bool \<Rightarrow> string list
     \<Rightarrow> native_call list \<times> CryptoKeyPair completion" where
  "variant_generateKey public_usages private_usages c alg ext keyUsages =
     (case checkAlgorithmIdentifier c (Some alg) of
        Some e \<Rightarrow> ([], failure e)
      | None \<Rightarrow>
          (case Rsa_checkRsaGenParams alg of
             Some e \<Rightarrow> ([], failure e)
           | None \<Rightarrow>
               (case Rsa_checkAlgorithmHashedParams (Some alg) of
                  Inl e \<Rightarrow> ([], failure e)
                | Inr alg' \<Rightarrow>
                    (let r = Rsa_generateKey c alg' ext keyUsages
                     in (fst r, generateKey_callback public_usages private_usages (snd r))))))"

definition RsaPKCS1_generateKey ::
  "collaborators \<Rightarrow> NodeAlgorithm \<Rightarrow> bool \<Rightarrow> string list
     \<Rightarrow> native_call list \<times> CryptoKeyPair completion" where
  "RsaPKCS1_generateKey = variant_generateKey [''verify''] [''sign'']"

definition RsaPSS_generateKey ::
  "collaborators \<Rightarrow> NodeAlgorithm \<Rightarrow> bool \<Rightarrow> string list
     \<Rightarrow> native_call list \<times> CryptoKeyPair completion" where
  "RsaPSS_generateKey = variant_generateKey [''verify''] [''sign'']"

definition RsaOAEP_generateKey ::
  "collaborators \<Rightarrow> NodeAlgorithm \<Rightarrow> bool \<Rightarrow> string list
     \<Rightarrow> native_call list \<times> CryptoKeyPair completion" where
  "RsaOAEP_generateKey = variant_generateKey [''encrypt'', ''wrapKey''] [''decrypt'', ''unwrapKey'']"

text \<open>
  The callback the \<open>exportKey\<close> overrides give to \<open>Rsa.exportKey\<close>. It compares the
  caller's \<open>format\<close> itself with \<open>"jwk"\<close> (\<open>format === "jwk"\<close>), not its lower-case
  form. \<open>alg_of\<close> builds the \<open>alg\<close> tag from the digits that end the hash name.
\<close>

definition exportKey_callback ::
  "(string \<Rightarrow> string) \<Rightarrow> string list \<Rightarrow> string list \<Rightarrow> string \<Rightarrow> CryptoKey
     \<Rightarrow> jsobject completion \<Rightarrow> jsobject completion" where
  "exportKey_callback alg_of public_ops private_ops format key r =
     (case fst r of
        Some err \<Rightarrow> (Some err, None)
      | None \<Rightarrow>
          if format = ''jwk'' then
            (case hash (algorithm key) of
               None \<Rightarrow> failure (TypeError ''Cannot read property name of undefined'')
             | Some nm \<Rightarrow>
                 (case exec_digits nm of
                    None \<Rightarrow> failure (TypeError ''Cannot read property 1 of null'')
                  | Some ds \<Rightarrow>
                      (case snd r of
                         None \<Rightarrow> failure (TypeError ''Cannot set property alg of null'')
                       | Some jwk \<Rightarrow>
                           success
                             (set_prop
                                (set_prop (set_prop jwk ''alg'' (Str (alg_of ds))) ''ext'' (Bool True))
                                ''key_ops''
                                (Strs (if type key = ''public'' then public_ops else private_ops))))))
          else (None, snd r))"

definition variant_exportKey ::
  "(string \<Rightarrow> string) \<Rightarrow> string list \<Rightarrow> string list \<Rightarrow> collaborators \<Rightarrow> string \<Rightarrow> CryptoKey
     \<Rightarrow> native_call list \<times> jsobject completion" where
  "variant_exportKey alg_of public_ops private_ops c format key =
     (let r = Rsa_exportKey c format key
      in (fst r, exportKey_callback alg_of public_ops private_ops format key (snd r)))"

definition RsaPKCS1_exportKey ::
  "collaborators \<Rightarrow> string \<Rightarrow> CryptoKey \<Rightarrow> native_call list \<times> jsobject completion" where
  "RsaPKCS1_exportKey = variant_exportKey (\<lambda>ds. ''RS'' @ ds) [''verify''] [''sign'']"

definition RsaPSS_exportKey ::
  "collaborators \<Rightarrow> string \<Rightarrow> CryptoKey \<Rightarrow> native_call list \<times> jsobject completion" where
  "RsaPSS_exportKey = variant_exportKey (\<lambda>ds. ''PS'' @ ds) [''verify''] [''sign'']"

definition RsaOAEP_alg :: "string \<Rightarrow> string" where
  "RsaOAEP_alg md_size = (if md_size \<noteq> ''1'' then ''RSA-OAEP'' @ ''-'' @ md_size else ''RSA-OAEP'')"

definition RsaOAEP_exportKey ::
  "collaborators \<Rightarrow> string \<Rightarrow> CryptoKey \<Rightarrow> native_call list \<times> jsobject completion" where
  "RsaOAEP_exportKey =
     variant_exportKey RsaOAEP_alg [''encrypt'', ''wrapKey''] [''decrypt'', ''unwrapKey'']"

definition RsaPKCS1_sign ::
  "collaborators \<Rightarrow> NodeAlgorithm \<Rightarrow> CryptoKey \<Rightarrow> bytes \<Rightarrow> native_call list \<times> bytes completion" where
  "RsaPKCS1_sign c alg key data =
     (case checkAlgorithmIdentifier c (Some alg) of
        Some e \<Rightarrow> ([], failure e)
      | None \<Rightarrow>
          (case checkPrivateKey key of
             Some e \<Rightarrow> ([], failure e)
           | None \<Rightarrow>
               (case Rsa_wc2ssl (algorithm key) of
                  Inl e \<Rightarrow> ([], failure e)
                | Inr ssl_alg \<Rightarrow>
                    (let nkey = native key
                     in ([Sign nkey ssl_alg data], forward (native_sign c nkey ssl_alg data))))))"


text \<open>
  \<open>RsaPSS.sign\<close> and \<open>RsaPSS.verify\<close> pass \<open>alg.saltLength / 8\<close> to the engine; the
  check before has left only salt lengths that are present and multiples of 8, where the
  quotient is exact (the branch for an absent salt length is never taken).
\<close>

definition RsaPSS_sign ::
  "collaborators \<Rightarrow> NodeAlgorithm \<Rightarrow> CryptoKey \<Rightarrow> bytes \<Rightarrow> native_call list \<times> bytes completion" where
  "RsaPSS_sign c alg key data =
     (case checkAlgorithmIdentifier c (Some alg) of
        Some e \<Rightarrow> ([], failure e)
      | None \<Rightarrow>
          (case RsaPSS_checkRsaAlgorithmParams alg of
             Some e \<Rightarrow> ([], failure e)
           | None \<Rightarrow>
               (case checkPrivateKey key of
                  Some e \<Rightarrow> ([], failure e)
                | None \<Rightarrow>
                    (case Rsa_wc2ssl (algorithm key) of
                       Inl e \<Rightarrow> ([], failure e)
                     | Inr ssl_alg \<Rightarrow>
                         (case saltLength alg of
                            None \<Rightarrow> ([], failure (TypeError ''saltLength is undefined''))
                          | Some n \<Rightarrow>
                              (let nkey = native key
                               in ([RsaPssSign nkey ssl_alg (n div 8) data],
                                   forward (native_RsaPssSign c nkey ssl_alg (n div 8) data))))))))"

definition RsaPSS_verify ::
  "collaborators \<Rightarrow> NodeAlgorithm \<Rightarrow> CryptoKey \<Rightarrow> bytes \<Rightarrow> bytes
     \<Rightarrow> native_call list \<times> bool completion" where
  "RsaPSS_verify c alg key signature data =
     (case checkAlgorithmIdentifier c (Some alg) of
        Some e \<Rightarrow> ([], failure e)
      | None \<Rightarrow>
          (case RsaPSS_checkRsaAlgorithmParams alg of
             Some e \<Rightarrow> ([], failure e)
           | None \<Rightarrow>
               (case checkPublicKey key of
                  Some e \<Rightarrow> ([], failure e)
                | None \<Rightarrow>
                    (case Rsa_wc2ssl (algorithm key) of
                       Inl e \<Rightarrow> ([], failure e)
                     | Inr ssl_alg \<Rightarrow>
                         (case saltLength alg of
                            None \<Rightarrow> ([], failure (TypeError ''saltLength is undefined''))
                          | Some n \<Rightarrow>
                              (let nkey = native key
                               in ([RsaPssVerify nkey ssl_alg (n div 8) data signature],
                                   forward
                                     (native_RsaPssVerify c nkey ssl_alg (n div 8) data signature))))))))"

section \<open>The engine's verification primitives\<close>



section \<open>Sample collaborators and inputs\<close>

text \<open>
  A stand-in for the collaborators, to run the operations on concrete inputs: an
  identifier check that accepts every object, a codec that maps a character to its code,
  and an engine that answers every request with the key handle 7, a fixed JWK or fixed
  bytes, and that accepts the signature \<open>[1]\<close> only.
\<close>

definition sample_collaborators :: collaborators where
  "sample_collaborators =
     \<lparr>checkAlgorithmIdentifier =
        (\<lambda>alg. case alg of
                 None \<Rightarrow> Some (TypeError ''AlgorithmIdentifier: Algorithm must be an Object'')
               | Some a \<Rightarrow> None),
      Base64Url_decode =
        (\<lambda>v. case v of Str t \<Rightarrow> Inr (map (\<lambda>ch. of_nat (of_char ch)) t)
                      | _ \<Rightarrow> Inl (TypeError ''Base64Url: not a string'')),
      Base64Url_encode =
        (\<lambda>v. case v of Str t \<Rightarrow> Inr t | Buf b \<Rightarrow> Inr (toString_hex b)
                      | _ \<Rightarrow> Inl (TypeError ''Base64Url: not a Buffer'')),
      native_generateRsa = (\<lambda>size nExp. Inr 7),
      native_importJwk = (\<lambda>jwk t. Inr 7),
      native_importPkcs8 = (\<lambda>b. Inr 7),
      native_importSpki = (\<lambda>b. Inr 7),
      native_modulusLength = (\<lambda>k. 256),
      native_publicExponent = (\<lambda>k. [1, 0, 1]),
      native_exportJwk =
        (\<lambda>k t. Inr \<lparr>buffer = None,
                     props = (\<lambda>p. if p = ''n'' then Str ''wQ'' else if p = ''e'' then Str ''AQAB''
                                   else Undefined)\<rparr>),
      native_exportSpki = (\<lambda>k. Inr [48, 0]),
      native_exportPkcs8 = (\<lambda>k. Inr [48, 0]),
      native_sign = (\<lambda>k a d. Inr [1]),
      native_verify = (\<lambda>k a d sg. Inr (sg = [1])),
      native_RsaPssSign = (\<lambda>k a n d. Inr [1]),
      native_RsaPssVerify = (\<lambda>k a n d sg. Inr (sg = [1]))\<rparr>"

definition sample_alg :: NodeAlgorithm where
  "sample_alg =
     \<lparr>name = ''RSASSA-PKCS1-v1_5'', hash = Some ''SHA-256'', modulusLength = Some 2048,
      publicExponent = Some [1, 0, 1], saltLength = None, label = None\<rparr>"

definition sample_public_key :: CryptoKey where
  "sample_public_key = new_CryptoKey 7 sample_alg ''public'' False [''verify'']"

definition sample_private_key :: CryptoKey where
  "sample_private_key = new_CryptoKey 7 sample_alg ''private'' False [''sign'']"

definition sample_store :: store where
  "sample_store = (\<lambda>a. Buffer_object [48, 0])"


definition sample_sha1_key :: CryptoKey where
  "sample_sha1_key = new_CryptoKey 7 (sample_alg\<lparr>hash := Some ''SHA-1''\<rparr>) ''public'' True [''encrypt'']"

section \<open>Hexadecimal encoding\<close>

lemma hexdigit_inj: "i < 16 \<Longrightarrow> j < 16 \<Longrightarrow> hexdigit i = hexdigit j \<Longrightarrow> i = j"
  unfolding hexdigit_def using nth_eq_iff_index_eq [of "''0123456789abcdef''" i j] by simp

lemma hexdigit_eq_iff: "i < 16 \<Longrightarrow> j < 16 \<Longrightarrow> (hexdigit i = hexdigit j) = (i = j)"
  using hexdigit_inj by blast

lemma byte_nibbles_eq:
  fixes x y :: "8 word"
  assumes "hexdigit (unat x div 16) = hexdigit (unat y div 16)"
    and "hexdigit (unat x mod 16) = hexdigit (unat y mod 16)"
  shows "x = y"
proof -
  have bx: "unat x < 256" and "unat y < 256"
    using unsigned_less [of x] unsigned_less [of y] by simp_all
  then have "unat x div 16 < 16" "unat y div 16 < 16" by simp_all
  with assms(1) have hi: "unat x div 16 = unat y div 16" by (simp add: hexdigit_eq_iff)
  from assms(2) have lo: "unat x mod 16 = unat y mod 16" by (simp add: hexdigit_eq_iff)
  from hi lo have "unat x = unat y" by (metis div_mult_mod_eq)
  then show ?thesis by (simp add: word_unat_eq_iff)
qed

lemma toString_hex_inj: "toString_hex xs = toString_hex ys \<Longrightarrow> xs = ys"
proof (induction xs arbitrary: ys)
  case Nil
  then show ?case by (cases ys) simp_all
next
  case (Cons x xs)
  then show ?case by (cases ys) (auto dest: byte_nibbles_eq)
qed

lemma toString_hex_03: "(toString_hex bs = ''03'') = (bs = [3])"
proof -
  have "toString_hex [3] = ''03''" by (simp add: hexdigit_def)
  then show ?thesis using toString_hex_inj [of bs "[3]"] by auto
qed

lemma toString_hex_010001: "(toString_hex bs = ''010001'') = (bs = [1, 0, 1])"
proof -
  have "toString_hex [1, 0, 1] = ''010001''" by (simp add: hexdigit_def)
  then show ?thesis using toString_hex_inj [of bs "[1, 0, 1]"] by auto
qed

lemma Rsa_generateKey_calls:
  "fst (Rsa_generateKey c alg ext us) =
     (case publicExponent alg of
        None \<Rightarrow> []
      | Some bs \<Rightarrow>
          if toString_hex bs = ''03'' \<or> toString_hex bs = ''010001''
          then [GenerateRsa (modulusLength alg) (if toString_hex bs = ''010001'' then 1 else 0)]
          else [])"
  by (simp add: Rsa_generateKey_def new_Buffer_def Rsa_checkExponent_def Let_def
      split: option.splits)

lemma Rsa_generateKey_rejects:
  "publicExponent alg = Some bs \<Longrightarrow> toString_hex bs \<noteq> ''03'' \<Longrightarrow> toString_hex bs \<noteq> ''010001'' \<Longrightarrow>
   Rsa_generateKey c alg ext us =
     ([], failure (TypeError ''RsaKeyGenParams: Wrong publicExponent value''))"
  by (simp add: Rsa_generateKey_def new_Buffer_def Rsa_checkExponent_def Let_def)

lemma variant_generateKey_calls:
  "fst (variant_generateKey pu pr c alg ext us) \<noteq> [] \<Longrightarrow>
   \<exists>alg'. Rsa_checkAlgorithmHashedParams (Some alg) = Inr alg' \<and>
          checkAlgorithmIdentifier c (Some alg) = None \<and> Rsa_checkRsaGenParams alg = None \<and>
          fst (variant_generateKey pu pr c alg ext us) = fst (Rsa_generateKey c alg' ext us)"
  by (auto simp: variant_generateKey_def Let_def split: option.splits sum.splits)

lemma Rsa_checkAlgorithmHashedParams_Inr:
  "Rsa_checkAlgorithmHashedParams (Some alg) = Inr alg' \<Longrightarrow>
   \<exists>nm. hash alg = Some nm \<and> toUpperCase nm \<in> set HASH_ALGS \<and> alg' = alg\<lparr>hash := Some (toUpperCase nm)\<rparr>"
  by (auto simp: Rsa_checkAlgorithmHashedParams_def AlgorithmBase_checkAlgorithmHashedParams_def
      split: option.splits if_splits)

section \<open>Key generation: the public exponent\<close>

text \<open>
  Claim C5. \<open>Rsa.generateKey\<close> reaches the engine exactly when the public exponent
  is present and its hexadecimal encoding is \<open>03\<close> or \<open>010001\<close>, that is, when the
  bytes are \<open>[3]\<close> or \<open>[1, 0, 1]\<close> (3 or 65537). A present exponent with any other
  encoding ends the call with the TypeError "Wrong publicExponent value" and no engine
  call. The \<open>generateKey\<close> of a variant, which runs further checks first, reaches the
  engine only with one of the two exponents.
\<close>

theorem generateKey_publicExponent:
  "(fst (Rsa_generateKey c alg ext us) \<noteq> []) =
     (\<exists>bs. publicExponent alg = Some bs \<and> (toString_hex bs = ''03'' \<or> toString_hex bs = ''010001''))
   \<and> (\<forall>bs. (toString_hex bs = ''03'') = (bs = [3]) \<and> (toString_hex bs = ''010001'') = (bs = [1, 0, 1]))
   \<and> (\<forall>bs. publicExponent alg = Some bs \<and> toString_hex bs \<noteq> ''03'' \<and> toString_hex bs \<noteq> ''010001'' \<longrightarrow>
         Rsa_generateKey c alg ext us =
           ([], failure (TypeError ''RsaKeyGenParams: Wrong publicExponent value'')))
   \<and> (\<forall>pu pr. fst (variant_generateKey pu pr c alg ext us) \<noteq> [] \<longrightarrow>
         (\<exists>bs. publicExponent alg = Some bs \<and> (toString_hex bs = ''03'' \<or> toString_hex bs = ''010001'')))"
proof (intro conjI allI impI)
  show "(fst (Rsa_generateKey c alg ext us) \<noteq> []) =
     (\<exists>bs. publicExponent alg = Some bs \<and> (toString_hex bs = ''03'' \<or> toString_hex bs = ''010001''))"
    by (simp add: Rsa_generateKey_calls split: option.splits)
next
  fix bs :: bytes
  show "(toString_hex bs = ''03'') = (bs = [3])" by (rule toString_hex_03)
  show "(toString_hex bs = ''010001'') = (bs = [1, 0, 1])" by (rule toString_hex_010001)
next
  fix bs
  assume "publicExponent alg = Some bs \<and> toString_hex bs \<noteq> ''03'' \<and> toString_hex bs \<noteq> ''010001''"
  then show "Rsa_generateKey c alg ext us =
           ([], failure (TypeError ''RsaKeyGenParams: Wrong publicExponent value''))"
    by (simp add: Rsa_generateKey_rejects)
next
  fix pu pr
  assume h: "fst (variant_generateKey pu pr c alg ext us) \<noteq> []"
  from variant_generateKey_calls [OF h] obtain alg' where
    a: "Rsa_checkAlgorithmHashedParams (Some alg) = Inr alg'"
    and f: "fst (variant_generateKey pu pr c alg ext us) = fst (Rsa_generateKey c alg' ext us)"
    by blast
  from Rsa_checkAlgorithmHashedParams_Inr [OF a] have "publicExponent alg' = publicExponent alg"
    by auto
  with h f show "\<exists>bs. publicExponent alg = Some bs \<and> (toString_hex bs = ''03'' \<or> toString_hex bs = ''010001'')"
    by (simp add: Rsa_generateKey_calls split: option.splits if_splits)
qed

text \<open>
  The exponent 65539 (bytes \<open>[1, 0, 3]\<close>, encoded \<open>010003\<close>) is refused before the
  engine is called; 65537 is accepted.
\<close>

theorem generateKey_publicExponent_witness:
  "Rsa_generateKey sample_collaborators (sample_alg\<lparr>publicExponent := Some [1, 0, 3]\<rparr>) True [] =
     ([], failure (TypeError ''RsaKeyGenParams: Wrong publicExponent value''))
   \<and> toString_hex [1, 0, 3] = ''010003''
   \<and> fst (Rsa_generateKey sample_collaborators sample_alg True []) \<noteq> []
   \<and> fst (RsaPKCS1_generateKey sample_collaborators sample_alg True []) \<noteq> []"
proof -
  have hex: "toString_hex [1, 0, 3] = ''010003''" by (simp add: hexdigit_def)
  have hex1: "toString_hex [1, 0, 1] = ''010001''" by (simp add: hexdigit_def)
  note inst = generateKey_publicExponent
    [of sample_collaborators "sample_alg\<lparr>publicExponent := Some [1, 0, 3]\<rparr>" True "[]"]
  from inst hex have 1: "Rsa_generateKey sample_collaborators
      (sample_alg\<lparr>publicExponent := Some [1, 0, 3]\<rparr>) True [] =
     ([], failure (TypeError ''RsaKeyGenParams: Wrong publicExponent value''))"
    by simp
  have 2: "fst (Rsa_generateKey sample_collaborators sample_alg True []) \<noteq> []"
    using generateKey_publicExponent [of sample_collaborators sample_alg True "[]"] hex1
    by (simp add: sample_alg_def)
  have 3: "fst (RsaPKCS1_generateKey sample_collaborators sample_alg True []) \<noteq> []"
    by (simp add: RsaPKCS1_generateKey_def variant_generateKey_def sample_collaborators_def
        sample_alg_def Rsa_checkRsaGenParams_def Rsa_checkAlgorithmHashedParams_def
        AlgorithmBase_checkAlgorithmHashedParams_def toUpperCase_def toUpperCase_char_def
        HASH_ALGS_def Rsa_generateKey_calls hexdigit_def Let_def)
  from 1 hex 2 3 show ?thesis by simp
qed

section \<open>Evaluating the operations on the sample inputs\<close>

lemmas sample_simps =
  sample_collaborators_def sample_alg_def sample_public_key_def sample_private_key_def
  sample_store_def new_CryptoKey_def

lemmas check_simps =
  Rsa_checkRsaGenParams_def Rsa_checkAlgorithmHashedParams_def
  AlgorithmBase_checkAlgorithmHashedParams_def Rsa_checkExponent_def new_Buffer_def
  checkPublicKey_def checkPrivateKey_def HASH_ALGS_def
  toUpperCase_def toUpperCase_char_def toLocaleLowerCase_def toLowerCase_char_def hexdigit_def

section \<open>Key generation: usages and modulus length\<close>

text \<open>
  Whatever the variant, a generated pair holds the two keys as \<open>Rsa.generateKey\<close>
  built them: their usages are the caller's \<open>keyUsages\<close>. The usage array the variant's
  callback writes lands on the pair object.
\<close>

lemma variant_generateKey_keeps_usages:
  assumes "variant_generateKey pu pr c alg ext us = (calls, (None, Some kp))"
  shows "usages (publicKey kp) = us \<and> usages (privateKey kp) = us
         \<and> type (publicKey kp) = ''public'' \<and> type (privateKey kp) = ''private''
         \<and> pair_usages kp = Some pr"
  using assms
  by (auto simp: variant_generateKey_def generateKey_callback_def Rsa_generateKey_def Let_def
      failure_def success_def new_CryptoKey_def
      split: option.splits sum.splits if_splits)

text \<open>
  Claim C1. The claim gives the generated keys fixed usages whatever the caller
  passes. On the sample engine, with \<open>keyUsages = ["sign", "verify"]\<close>, the public
  key \<open>RsaPKCS1.generateKey\<close> returns has the usages \<open>["sign", "verify"]\<close>, and so
  has the private key of \<open>RsaPSS.generateKey\<close>; with \<open>keyUsages = ["encrypt"]\<close> the
  public key of \<open>RsaOAEP.generateKey\<close> has the usages \<open>["encrypt"]\<close>. The array
  \<open>["sign"]\<close> is a property of the pair.
\<close>

theorem generateKey_usages_are_the_callers:
  "fst (RsaPKCS1_generateKey sample_collaborators sample_alg True [''sign'', ''verify''])
     = [GenerateRsa (Some 2048) 1]
   \<and> fst (snd (RsaPKCS1_generateKey sample_collaborators sample_alg True [''sign'', ''verify'']))
     = None
   \<and> map_option (\<lambda>kp. usages (publicKey kp))
       (snd (snd (RsaPKCS1_generateKey sample_collaborators sample_alg True [''sign'', ''verify''])))
     = Some [''sign'', ''verify'']
   \<and> map_option (\<lambda>kp. usages (privateKey kp))
       (snd (snd (RsaPSS_generateKey sample_collaborators sample_alg True [''sign'', ''verify''])))
     = Some [''sign'', ''verify'']
   \<and> map_option (\<lambda>kp. usages (publicKey kp))
       (snd (snd (RsaOAEP_generateKey sample_collaborators sample_alg True [''encrypt''])))
     = Some [''encrypt'']
   \<and> map_option pair_usages
       (snd (snd (RsaPKCS1_generateKey sample_collaborators sample_alg True [''sign'', ''verify''])))
     = Some (Some [''sign''])"
  by (simp add: RsaPKCS1_generateKey_def RsaPSS_generateKey_def RsaOAEP_generateKey_def
      variant_generateKey_def generateKey_callback_def Rsa_generateKey_def
      sample_simps check_simps success_def failure_def Let_def)

text \<open>
  What \<open>checkRsaGenParams\<close> accepts: a modulus length from 256 to 16384, whatever its
  remainder by 8, and a public exponent that is present.
\<close>

lemma Rsa_checkRsaGenParams_None:
  "(Rsa_checkRsaGenParams alg = None) =
     ((\<exists>m. modulusLength alg = Some m \<and> 256 \<le> m \<and> m \<le> 16384) \<and> publicExponent alg \<noteq> None)"
  by (auto simp: Rsa_checkRsaGenParams_def split: option.splits)

text \<open>
  Claim C4. The claim refuses a modulus length that is not a multiple of 8, as the
  message of \<open>checkRsaGenParams\<close> words it; the check compares with 256 and 16384
  only. With \<open>modulusLength = 257\<close> the check passes and \<open>RsaPKCS1.generateKey\<close>
  asks the engine for a 257-bit key.
\<close>

theorem generateKey_modulusLength_257:
  "Rsa_checkRsaGenParams (sample_alg\<lparr>modulusLength := Some 257\<rparr>) = None
   \<and> fst (RsaPKCS1_generateKey sample_collaborators (sample_alg\<lparr>modulusLength := Some 257\<rparr>) True [])
       = [GenerateRsa (Some 257) 1]
   \<and> fst (snd (RsaPKCS1_generateKey sample_collaborators
        (sample_alg\<lparr>modulusLength := Some 257\<rparr>) True [])) = None"
  by (simp add: RsaPKCS1_generateKey_def
      variant_generateKey_def generateKey_callback_def Rsa_generateKey_def
      sample_simps check_simps success_def failure_def Let_def)

section \<open>Import: the completion of the pkcs8 and spki branch\<close>

text \<open>
  Claim C3. The claim has every failure delivered with a non-null error. With the
  format \<open>spki\<close>, a Buffer and an undefined algorithm descriptor, the engine imports
  the key, the write to the descriptor throws, and the handler passes the engine's
  \<open>err\<close>, which is null: the completion is \<open>cb(null, null)\<close>.
\<close>

theorem importKey_spki_null_error:
  "Rsa_importKey sample_collaborators sample_store ''spki'' 0 None True [''verify'']
     = (sample_store, [ImportSpki [48, 0]], (None, None))"
  by (simp add: Rsa_importKey_def sample_simps check_simps Buffer_object_def Let_def)

section \<open>Export: the case of the format string\<close>

text \<open>
  The base class lower-cases the format before it branches: for the three formats in any
  letter case, \<open>Rsa.exportKey\<close> and \<open>Rsa.importKey\<close> do what they do for the
  lower-case string.
\<close>

lemma Rsa_exportKey_lower_case:
  assumes "toLocaleLowerCase format \<in> {''jwk'', ''spki'', ''pkcs8''}"
  shows "Rsa_exportKey c format key = Rsa_exportKey c (toLocaleLowerCase format) key"
proof -
  have l: "toLocaleLowerCase ''jwk'' = ''jwk''" "toLocaleLowerCase ''spki'' = ''spki''"
    "toLocaleLowerCase ''pkcs8'' = ''pkcs8''"
    by (simp_all add: toLocaleLowerCase_def toLowerCase_char_def)
  from assms l have idem: "toLocaleLowerCase (toLocaleLowerCase format) = toLocaleLowerCase format"
    by auto
  from assms show ?thesis unfolding Rsa_exportKey_def Let_def idem by auto
qed

lemma Rsa_importKey_lower_case:
  assumes "toLocaleLowerCase format \<in> {''jwk'', ''spki'', ''pkcs8''}"
  shows "Rsa_importKey c s format keyData algo ext us
           = Rsa_importKey c s (toLocaleLowerCase format) keyData algo ext us"
proof -
  have l: "toLocaleLowerCase ''jwk'' = ''jwk''" "toLocaleLowerCase ''spki'' = ''spki''"
    "toLocaleLowerCase ''pkcs8'' = ''pkcs8''"
    by (simp_all add: toLocaleLowerCase_def toLowerCase_char_def)
  from assms l have idem: "toLocaleLowerCase (toLocaleLowerCase format) = toLocaleLowerCase format"
    by auto
  from assms show ?thesis unfolding Rsa_importKey_def Let_def idem by auto
qed

text \<open>
  Claim C7. The claim has an upper-case format string give the result of the
  lower-case one. \<open>RsaPKCS1.exportKey("JWK", key)\<close> exports through the engine as
  \<open>"jwk"\<close> does, and then returns the object without \<open>alg\<close>, \<open>key_ops\<close> and
  \<open>ext\<close>, which \<open>"jwk"\<close> sets: the variant's callback compares \<open>format\<close> itself with
  \<open>"jwk"\<close>.
\<close>

theorem exportKey_upper_case_format:
  "map_option (\<lambda>jwk. (props jwk ''alg'', props jwk ''key_ops'', props jwk ''ext''))
       (snd (snd (RsaPKCS1_exportKey sample_collaborators ''JWK'' sample_public_key)))
     = Some (Undefined, Undefined, Undefined)
   \<and> map_option (\<lambda>jwk. (props jwk ''alg'', props jwk ''key_ops'', props jwk ''ext''))
       (snd (snd (RsaPKCS1_exportKey sample_collaborators ''jwk'' sample_public_key)))
     = Some (Str ''RS256'', Strs [''verify''], Bool True)
   \<and> fst (RsaPKCS1_exportKey sample_collaborators ''JWK'' sample_public_key)
     = fst (RsaPKCS1_exportKey sample_collaborators ''jwk'' sample_public_key)
   \<and> fst (snd (RsaPKCS1_exportKey sample_collaborators ''JWK'' sample_public_key)) = None"
  by (simp add: RsaPKCS1_exportKey_def variant_exportKey_def exportKey_callback_def
      Rsa_exportKey_def sample_simps check_simps success_def failure_def Let_def
      set_prop_def exec_digits_def is_digit_def)

section \<open>Export and the extractable flag\<close>

lemma check_key_extractable:
  "checkPublicKey (key\<lparr>extractable := b\<rparr>) = checkPublicKey key"
  "checkPrivateKey (key\<lparr>extractable := b\<rparr>) = checkPrivateKey key"
  by (simp_all add: checkPublicKey_def checkPrivateKey_def)

lemma Rsa_exportKey_extractable:
  "Rsa_exportKey c format (key\<lparr>extractable := b\<rparr>) = Rsa_exportKey c format key"
  by (simp add: Rsa_exportKey_def check_key_extractable Let_def)

lemma exportKey_callback_extractable:
  "exportKey_callback f pu pr format (key\<lparr>extractable := b\<rparr>) r
     = exportKey_callback f pu pr format key r"
  by (simp add: exportKey_callback_def cong: option.case_cong if_cong)

lemma variant_exportKey_extractable:
  "variant_exportKey f pu pr c format (key\<lparr>extractable := b\<rparr>) = variant_exportKey f pu pr c format key"
  by (simp add: variant_exportKey_def Rsa_exportKey_extractable exportKey_callback_extractable)

lemma Rsa_exportKey_no_call:
  "(fst (Rsa_exportKey c format key) = []) =
     ((toLocaleLowerCase format \<noteq> ''jwk'' \<and> toLocaleLowerCase format \<noteq> ''spki''
         \<and> toLocaleLowerCase format \<noteq> ''pkcs8'')
      \<or> (toLocaleLowerCase format = ''spki'' \<and> type key \<noteq> ''public'')
      \<or> (toLocaleLowerCase format = ''pkcs8'' \<and> type key \<noteq> ''private''))"
  by (auto simp: Rsa_exportKey_def checkPublicKey_def checkPrivateKey_def Let_def)

lemma Rsa_exportKey_no_call_failure:
  "fst (Rsa_exportKey c format key) = [] \<Longrightarrow> \<exists>e. snd (Rsa_exportKey c format key) = failure e"
  by (auto simp: Rsa_exportKey_def checkPublicKey_def checkPrivateKey_def Let_def
      split: if_splits)

text \<open>
  Claim C2, as stated, fails: the sample public key is not extractable, and its export
  as \<open>jwk\<close> asks the engine and succeeds with the encoded members.
\<close>

theorem exportKey_non_extractable_counterexample:
  "extractable sample_public_key = False
   \<and> fst (Rsa_exportKey sample_collaborators ''jwk'' sample_public_key) = [ExportJwk 7 PUBLIC]
   \<and> fst (snd (Rsa_exportKey sample_collaborators ''jwk'' sample_public_key)) = None
   \<and> map_option (\<lambda>jwk. (props jwk ''n'', props jwk ''e''))
        (snd (snd (Rsa_exportKey sample_collaborators ''jwk'' sample_public_key)))
      = Some (Str ''wQ'', Str ''AQAB'')"
  by (simp add: Rsa_exportKey_def sample_simps check_simps success_def failure_def set_prop_def
      Let_def)

text \<open>
  Claim C2, amended. \<open>exportKey\<close> does not read the extractable flag: with the flag
  set either way, \<open>Rsa.exportKey\<close> and the three variants make the same engine calls
  and complete alike. For every key, non-extractable ones included, \<open>Rsa.exportKey\<close>
  makes no engine call exactly when the lower-cased format is none of \<open>jwk\<close>,
  \<open>spki\<close>, \<open>pkcs8\<close>, or is \<open>spki\<close> for a key that is not public, or \<open>pkcs8\<close> for a
  key that is not private; it then completes with an error.
\<close>

theorem exportKey_ignores_extractable:
  "Rsa_exportKey c format (key\<lparr>extractable := b\<rparr>) = Rsa_exportKey c format key
   \<and> RsaPKCS1_exportKey c format (key\<lparr>extractable := b\<rparr>) = RsaPKCS1_exportKey c format key
   \<and> RsaPSS_exportKey c format (key\<lparr>extractable := b\<rparr>) = RsaPSS_exportKey c format key
   \<and> RsaOAEP_exportKey c format (key\<lparr>extractable := b\<rparr>) = RsaOAEP_exportKey c format key
   \<and> (fst (Rsa_exportKey c format key) = []) =
       ((toLocaleLowerCase format \<noteq> ''jwk'' \<and> toLocaleLowerCase format \<noteq> ''spki''
           \<and> toLocaleLowerCase format \<noteq> ''pkcs8'')
        \<or> (toLocaleLowerCase format = ''spki'' \<and> type key \<noteq> ''public'')
        \<or> (toLocaleLowerCase format = ''pkcs8'' \<and> type key \<noteq> ''private''))
   \<and> (fst (Rsa_exportKey c format key) = [] \<longrightarrow>
        (\<exists>e. snd (Rsa_exportKey c format key) = failure e))"
  using Rsa_exportKey_no_call [of c format key] Rsa_exportKey_no_call_failure [of c format key]
  by (simp add: Rsa_exportKey_extractable variant_exportKey_extractable
      RsaPKCS1_exportKey_def RsaPSS_exportKey_def RsaOAEP_exportKey_def)

text \<open>
  The non-extractable sample public key: \<open>pkcs8\<close> fails without an engine call (the
  key is not private), \<open>spki\<close> reaches the engine, and the flag changes nothing.
\<close>

theorem exportKey_ignores_extractable_witness:
  "extractable sample_public_key = False
   \<and> fst (Rsa_exportKey sample_collaborators ''pkcs8'' sample_public_key) = []
   \<and> (\<exists>e. snd (Rsa_exportKey sample_collaborators ''pkcs8'' sample_public_key) = failure e)
   \<and> fst (Rsa_exportKey sample_collaborators ''spki'' sample_public_key) \<noteq> []
   \<and> Rsa_exportKey sample_collaborators ''spki'' (sample_public_key\<lparr>extractable := True\<rparr>)
       = Rsa_exportKey sample_collaborators ''spki'' sample_public_key"
proof -
  have t: "type sample_public_key = ''public''" and x: "extractable sample_public_key = False"
    by (simp_all add: sample_simps)
  have l: "toLocaleLowerCase ''pkcs8'' = ''pkcs8''" "toLocaleLowerCase ''spki'' = ''spki''"
    by (simp_all add: toLocaleLowerCase_def toLowerCase_char_def)
  note a = exportKey_ignores_extractable
    [where c = sample_collaborators and format = "''pkcs8''" and key = sample_public_key and b = True]
  note b = exportKey_ignores_extractable
    [where c = sample_collaborators and format = "''spki''" and key = sample_public_key and b = True]
  from a t l have 1: "fst (Rsa_exportKey sample_collaborators ''pkcs8'' sample_public_key) = []"
    by simp
  with a have 2: "\<exists>e. snd (Rsa_exportKey sample_collaborators ''pkcs8'' sample_public_key) = failure e"
    by blast
  from b t l have 3: "fst (Rsa_exportKey sample_collaborators ''spki'' sample_public_key) \<noteq> []"
    by simp
  from b have 4: "Rsa_exportKey sample_collaborators ''spki'' (sample_public_key\<lparr>extractable := True\<rparr>)
       = Rsa_exportKey sample_collaborators ''spki'' sample_public_key" by blast
  from x 1 2 3 4 show ?thesis by blast
qed

section \<open>RSA-PSS: the salt length\<close>

lemma js_rem_8: "(js_rem n 8 = 0) = (n mod 8 = 0)"
  by (auto simp: js_rem_def sgn_if abs_if zmod_zminus1_eq_if split: if_splits)

lemma RsaPSS_check_iff:
  "(RsaPSS_checkRsaAlgorithmParams alg = None) = (\<exists>n. saltLength alg = Some n \<and> n \<noteq> 0 \<and> n mod 8 = 0)"
  by (auto simp: RsaPSS_checkRsaAlgorithmParams_def js_rem_8 split: option.splits)

lemma RsaPSS_check_error:
  "saltLength alg = None \<or> (\<exists>n. saltLength alg = Some n \<and> n mod 8 \<noteq> 0) \<Longrightarrow>
   RsaPSS_checkRsaAlgorithmParams alg =
     Some (TypeError (if saltLength alg = None
                      then ''RsaPssAlgorithm: Parameter saltLength is required''
                      else ''RsaPssAlgorithm: Parameter saltLength should be a multiple of 8''))"
  by (auto simp: RsaPSS_checkRsaAlgorithmParams_def js_rem_8 split: option.splits)

lemma RsaPSS_sign_bad_salt:
  assumes "saltLength alg = None \<or> (\<exists>n. saltLength alg = Some n \<and> n mod 8 \<noteq> 0)"
  shows "(\<exists>e. RsaPSS_sign c alg key data = ([], failure e))
       \<and> (checkAlgorithmIdentifier c (Some alg) = None \<longrightarrow>
            RsaPSS_sign c alg key data =
              ([], failure (TypeError (if saltLength alg = None
                      then ''RsaPssAlgorithm: Parameter saltLength is required''
                      else ''RsaPssAlgorithm: Parameter saltLength should be a multiple of 8''))))"
  using RsaPSS_check_error [OF assms]
  by (cases "checkAlgorithmIdentifier c (Some alg)") (auto simp: RsaPSS_sign_def)

lemma RsaPSS_verify_bad_salt:
  assumes "saltLength alg = None \<or> (\<exists>n. saltLength alg = Some n \<and> n mod 8 \<noteq> 0)"
  shows "(\<exists>e. RsaPSS_verify c alg key sg data = ([], failure e))
       \<and> (checkAlgorithmIdentifier c (Some alg) = None \<longrightarrow>
            RsaPSS_verify c alg key sg data =
              ([], failure (TypeError (if saltLength alg = None
                      then ''RsaPssAlgorithm: Parameter saltLength is required''
                      else ''RsaPssAlgorithm: Parameter saltLength should be a multiple of 8''))))"
  using RsaPSS_check_error [OF assms]
  by (cases "checkAlgorithmIdentifier c (Some alg)") (auto simp: RsaPSS_verify_def)

lemma RsaPSS_sign_calls:
  assumes "fst (RsaPSS_sign c alg key data) \<noteq> []"
  shows "\<exists>n ssl. saltLength alg = Some n \<and> n = 8 * (n div 8) \<and> Rsa_wc2ssl (algorithm key) = Inr ssl
           \<and> fst (RsaPSS_sign c alg key data) = [RsaPssSign (native key) ssl (n div 8) data]"
proof -
  from assms have chk: "RsaPSS_checkRsaAlgorithmParams alg = None"
    by (auto simp: RsaPSS_sign_def split: option.splits)
  then obtain n where n: "saltLength alg = Some n" "n mod 8 = 0"
    by (auto simp: RsaPSS_check_iff)
  then have "n = 8 * (n div 8)" by presburger
  with assms chk n show ?thesis
    by (auto simp: RsaPSS_sign_def Let_def split: option.splits sum.splits)
qed

lemma RsaPSS_verify_calls:
  assumes "fst (RsaPSS_verify c alg key sg data) \<noteq> []"
  shows "\<exists>n ssl. saltLength alg = Some n \<and> n = 8 * (n div 8) \<and> Rsa_wc2ssl (algorithm key) = Inr ssl
           \<and> fst (RsaPSS_verify c alg key sg data) = [RsaPssVerify (native key) ssl (n div 8) data sg]"
proof -
  from assms have chk: "RsaPSS_checkRsaAlgorithmParams alg = None"
    by (auto simp: RsaPSS_verify_def split: option.splits)
  then obtain n where n: "saltLength alg = Some n" "n mod 8 = 0"
    by (auto simp: RsaPSS_check_iff)
  then have "n = 8 * (n div 8)" by presburger
  with assms chk n show ?thesis
    by (auto simp: RsaPSS_verify_def Let_def split: option.splits sum.splits)
qed

lemma RsaPSS_sign_ok:
  assumes "checkAlgorithmIdentifier c (Some alg) = None" "saltLength alg = Some n" "n \<noteq> 0"
    "n mod 8 = 0" "type key = ''private''" "Rsa_wc2ssl (algorithm key) = Inr ssl"
  shows "RsaPSS_sign c alg key data =
           ([RsaPssSign (native key) ssl (n div 8) data],
            forward (native_RsaPssSign c (native key) ssl (n div 8) data))"
proof -
  have "RsaPSS_checkRsaAlgorithmParams alg = None"
    using assms by (simp add: RsaPSS_check_iff)
  with assms show ?thesis by (simp add: RsaPSS_sign_def checkPrivateKey_def Let_def)
qed

lemma RsaPSS_verify_ok:
  assumes "checkAlgorithmIdentifier c (Some alg) = None" "saltLength alg = Some n" "n \<noteq> 0"
    "n mod 8 = 0" "type key = ''public''" "Rsa_wc2ssl (algorithm key) = Inr ssl"
  shows "RsaPSS_verify c alg key sg data =
           ([RsaPssVerify (native key) ssl (n div 8) data sg],
            forward (native_RsaPssVerify c (native key) ssl (n div 8) data sg))"
proof -
  have "RsaPSS_checkRsaAlgorithmParams alg = None"
    using assms by (simp add: RsaPSS_check_iff)
  with assms show ?thesis by (simp add: RsaPSS_verify_def checkPublicKey_def Let_def)
qed

text \<open>
  The salt length on the code. When \<open>saltLength\<close> is absent or not a multiple of 8,
  \<open>RsaPSS.sign\<close> and \<open>RsaPSS.verify\<close> fail without an engine call; once the
  identifier check of the base class has passed, the error is the TypeError of
  \<open>checkRsaAlgorithmParams\<close> ("saltLength is required", or "should be a multiple of
  8"). Whenever either operation calls the engine, it is one call whose salt argument is
  \<open>saltLength div 8\<close>, with \<open>saltLength\<close> a multiple of 8. And with a multiple of 8
  other than 0, a key of the required type and a supported hash, the call is made and its
  answer is the completion.
\<close>

lemma RsaPSS_saltLength:
  "((saltLength alg = None \<or> (\<exists>n. saltLength alg = Some n \<and> n mod 8 \<noteq> 0)) \<longrightarrow>
      (\<exists>e. RsaPSS_sign c alg key data = ([], failure e))
      \<and> (\<exists>e. RsaPSS_verify c alg key sg data = ([], failure e))
      \<and> (checkAlgorithmIdentifier c (Some alg) = None \<longrightarrow>
            RsaPSS_sign c alg key data =
              ([], failure (TypeError (if saltLength alg = None
                      then ''RsaPssAlgorithm: Parameter saltLength is required''
                      else ''RsaPssAlgorithm: Parameter saltLength should be a multiple of 8'')))
            \<and> RsaPSS_verify c alg key sg data =
              ([], failure (TypeError (if saltLength alg = None
                      then ''RsaPssAlgorithm: Parameter saltLength is required''
                      else ''RsaPssAlgorithm: Parameter saltLength should be a multiple of 8'')))))
   \<and> (fst (RsaPSS_sign c alg key data) \<noteq> [] \<longrightarrow>
        (\<exists>n ssl. saltLength alg = Some n \<and> n = 8 * (n div 8)
           \<and> fst (RsaPSS_sign c alg key data) = [RsaPssSign (native key) ssl (n div 8) data]))
   \<and> (fst (RsaPSS_verify c alg key sg data) \<noteq> [] \<longrightarrow>
        (\<exists>n ssl. saltLength alg = Some n \<and> n = 8 * (n div 8)
           \<and> fst (RsaPSS_verify c alg key sg data)
               = [RsaPssVerify (native key) ssl (n div 8) data sg]))
   \<and> (\<forall>n ssl. checkAlgorithmIdentifier c (Some alg) = None \<and> saltLength alg = Some n \<and> n \<noteq> 0
          \<and> n mod 8 = 0 \<and> Rsa_wc2ssl (algorithm key) = Inr ssl \<longrightarrow>
        (type key = ''private'' \<longrightarrow>
           RsaPSS_sign c alg key data =
             ([RsaPssSign (native key) ssl (n div 8) data],
              forward (native_RsaPssSign c (native key) ssl (n div 8) data)))
        \<and> (type key = ''public'' \<longrightarrow>
           RsaPSS_verify c alg key sg data =
             ([RsaPssVerify (native key) ssl (n div 8) data sg],
              forward (native_RsaPssVerify c (native key) ssl (n div 8) data sg))))"
proof (intro conjI impI allI)
  assume h: "saltLength alg = None \<or> (\<exists>n. saltLength alg = Some n \<and> n mod 8 \<noteq> 0)"
  show "\<exists>e. RsaPSS_sign c alg key data = ([], failure e)"
    using RsaPSS_sign_bad_salt [OF h] by blast
  show "\<exists>e. RsaPSS_verify c alg key sg data = ([], failure e)"
    using RsaPSS_verify_bad_salt [OF h] by blast
  assume i: "checkAlgorithmIdentifier c (Some alg) = None"
  show "RsaPSS_sign c alg key data =
              ([], failure (TypeError (if saltLength alg = None
                      then ''RsaPssAlgorithm: Parameter saltLength is required''
                      else ''RsaPssAlgorithm: Parameter saltLength should be a multiple of 8'')))"
    using RsaPSS_sign_bad_salt [OF h] i by blast
  show "RsaPSS_verify c alg key sg data =
              ([], failure (TypeError (if saltLength alg = None
                      then ''RsaPssAlgorithm: Parameter saltLength is required''
                      else ''RsaPssAlgorithm: Parameter saltLength should be a multiple of 8'')))"
    using RsaPSS_verify_bad_salt [OF h] i by blast
next
  assume "fst (RsaPSS_sign c alg key data) \<noteq> []"
  from RsaPSS_sign_calls [OF this]
  show "\<exists>n ssl. saltLength alg = Some n \<and> n = 8 * (n div 8)
           \<and> fst (RsaPSS_sign c alg key data) = [RsaPssSign (native key) ssl (n div 8) data]"
    by blast
next
  assume "fst (RsaPSS_verify c alg key sg data) \<noteq> []"
  from RsaPSS_verify_calls [OF this]
  show "\<exists>n ssl. saltLength alg = Some n \<and> n = 8 * (n div 8)
           \<and> fst (RsaPSS_verify c alg key sg data)
               = [RsaPssVerify (native key) ssl (n div 8) data sg]"
    by blast
next
  fix n ssl
  assume h: "checkAlgorithmIdentifier c (Some alg) = None \<and> saltLength alg = Some n \<and> n \<noteq> 0
          \<and> n mod 8 = 0 \<and> Rsa_wc2ssl (algorithm key) = Inr ssl"
  {
    assume "type key = ''private''"
    with h show "RsaPSS_sign c alg key data =
             ([RsaPssSign (native key) ssl (n div 8) data],
              forward (native_RsaPssSign c (native key) ssl (n div 8) data))"
      by (simp add: RsaPSS_sign_ok)
  }
  {
    assume "type key = ''public''"
    with h show "RsaPSS_verify c alg key sg data =
             ([RsaPssVerify (native key) ssl (n div 8) data sg],
              forward (native_RsaPssVerify c (native key) ssl (n div 8) data sg))"
      by (simp add: RsaPSS_verify_ok)
  }
qed

lemma sample_wc2ssl: "Rsa_wc2ssl sample_alg = Inr ''SHA256''"
  by (simp add: Rsa_wc2ssl_def sample_simps check_simps)

text \<open>
  On the sample engine: \<open>saltLength = 15\<close> and an absent \<open>saltLength\<close> are refused
  before any engine call; \<open>saltLength = 32\<close> reaches the engine as 4 bytes.
\<close>

lemma RsaPSS_saltLength_samples:
  "RsaPSS_sign sample_collaborators (sample_alg\<lparr>saltLength := Some 15\<rparr>) sample_private_key [9] =
     ([], failure (TypeError ''RsaPssAlgorithm: Parameter saltLength should be a multiple of 8''))
   \<and> RsaPSS_verify sample_collaborators sample_alg sample_public_key [1] [9] =
     ([], failure (TypeError ''RsaPssAlgorithm: Parameter saltLength is required''))
   \<and> RsaPSS_sign sample_collaborators (sample_alg\<lparr>saltLength := Some 32\<rparr>) sample_private_key [9] =
     ([RsaPssSign 7 ''SHA256'' 4 [9]], (None, Some [1]))
   \<and> RsaPSS_verify sample_collaborators (sample_alg\<lparr>saltLength := Some 32\<rparr>) sample_public_key
        [1] [9] =
     ([RsaPssVerify 7 ''SHA256'' 4 [9] [1]], (None, Some True))"
proof -
  have i: "checkAlgorithmIdentifier sample_collaborators (Some a) = None" for a
    by (simp add: sample_collaborators_def)
  have k: "algorithm sample_private_key = sample_alg" "type sample_private_key = ''private''"
    "native sample_private_key = 7" "algorithm sample_public_key = sample_alg"
    "type sample_public_key = ''public''" "native sample_public_key = 7"
    by (simp_all add: sample_public_key_def sample_private_key_def new_CryptoKey_def)
  have e: "native_RsaPssSign sample_collaborators 7 ''SHA256'' 4 [9] = Inr [1]"
    "native_RsaPssVerify sample_collaborators 7 ''SHA256'' 4 [9] [1] = Inr True"
    by (simp_all add: sample_collaborators_def)
  have s15: "saltLength (sample_alg\<lparr>saltLength := Some 15\<rparr>) = Some 15"
    and s32: "saltLength (sample_alg\<lparr>saltLength := Some 32\<rparr>) = Some 32"
    and s0: "saltLength sample_alg = None"
    by (simp_all add: sample_alg_def)
  have 1: "RsaPSS_sign sample_collaborators (sample_alg\<lparr>saltLength := Some 15\<rparr>) sample_private_key [9] =
     ([], failure (TypeError ''RsaPssAlgorithm: Parameter saltLength should be a multiple of 8''))"
    using RsaPSS_saltLength [of "sample_alg\<lparr>saltLength := Some 15\<rparr>" sample_collaborators
        sample_private_key "[9]" "[1]"] i s15
    by simp
  have 2: "RsaPSS_verify sample_collaborators sample_alg sample_public_key [1] [9] =
     ([], failure (TypeError ''RsaPssAlgorithm: Parameter saltLength is required''))"
    using RsaPSS_saltLength [of sample_alg sample_collaborators sample_public_key "[9]" "[1]"] i s0
    by simp
  have 3: "RsaPSS_sign sample_collaborators (sample_alg\<lparr>saltLength := Some 32\<rparr>) sample_private_key [9] =
     ([RsaPssSign 7 ''SHA256'' 4 [9]], (None, Some [1]))"
    using RsaPSS_saltLength [of "sample_alg\<lparr>saltLength := Some 32\<rparr>" sample_collaborators
        sample_private_key "[9]" "[1]"] i s32 k sample_wc2ssl e
    by (simp add: forward_def)
  have 4: "RsaPSS_verify sample_collaborators (sample_alg\<lparr>saltLength := Some 32\<rparr>) sample_public_key
        [1] [9] = ([RsaPssVerify 7 ''SHA256'' 4 [9] [1]], (None, Some True))"
    using RsaPSS_saltLength [of "sample_alg\<lparr>saltLength := Some 32\<rparr>" sample_collaborators
        sample_public_key "[9]" "[1]"] i s32 k sample_wc2ssl e
    by (simp add: forward_def)
  from 1 2 3 4 show ?thesis by blast
qed

text \<open>
  Claim C6. The claim has a valid salt length, present and a multiple of 8, divided by
  8 and passed to the engine. A salt length of 0 is present, and the check's own
  remainder test finds it a multiple of 8 (\<open>0 % 8\<close> is 0), but the presence test
  \<open>!alg.saltLength\<close> holds for 0: \<open>RsaPSS.sign\<close> and \<open>RsaPSS.verify\<close> refuse it
  with "Parameter saltLength is required" and call no engine. The next multiple, 8,
  reaches the engine as 1 byte.
\<close>

theorem RsaPSS_saltLength_zero:
  "js_rem 0 8 = 0
   \<and> RsaPSS_checkRsaAlgorithmParams (sample_alg\<lparr>name := ''RSA-PSS'', saltLength := Some 0\<rparr>)
       = Some (TypeError ''RsaPssAlgorithm: Parameter saltLength is required'')
   \<and> RsaPSS_sign sample_collaborators (sample_alg\<lparr>name := ''RSA-PSS'', saltLength := Some 0\<rparr>)
         sample_private_key [9]
       = ([], failure (TypeError ''RsaPssAlgorithm: Parameter saltLength is required''))
   \<and> RsaPSS_verify sample_collaborators (sample_alg\<lparr>name := ''RSA-PSS'', saltLength := Some 0\<rparr>)
         sample_public_key [1] [9]
       = ([], failure (TypeError ''RsaPssAlgorithm: Parameter saltLength is required''))
   \<and> RsaPSS_sign sample_collaborators (sample_alg\<lparr>name := ''RSA-PSS'', saltLength := Some 8\<rparr>)
         sample_private_key [9]
       = ([RsaPssSign 7 ''SHA256'' 1 [9]], (None, Some [1]))"
  by (simp add: js_rem_def RsaPSS_checkRsaAlgorithmParams_def RsaPSS_sign_def RsaPSS_verify_def
      Rsa_wc2ssl_def sample_simps check_simps forward_def failure_def Let_def)

section \<open>Export: the alg tag of the JWK\<close>

text \<open>
  What \<open>exec_digits\<close> returns, said without the regular expression: the digits
  \<open>ds\<close> are a non-empty run of decimal digits that ends the name, and the character
  before the run, if there is one, is not a digit.
\<close>

lemma exec_digits_iff:
  "(exec_digits nm = Some ds) =
     (ds \<noteq> [] \<and> list_all is_digit ds
      \<and> (\<exists>pre. nm = pre @ ds \<and> (pre = [] \<or> \<not> is_digit (last pre))))"
proof
  assume h: "exec_digits nm = Some ds"
  then have ds: "ds = rev (takeWhile is_digit (rev nm))" and ne: "ds \<noteq> []"
    by (auto simp: exec_digits_def Let_def split: if_splits)
  have all: "list_all is_digit ds"
    unfolding ds by (auto simp: list_all_iff dest: set_takeWhileD)
  define pre where "pre = rev (dropWhile is_digit (rev nm))"
  have "pre @ ds = rev (takeWhile is_digit (rev nm) @ dropWhile is_digit (rev nm))"
    unfolding pre_def ds by (simp only: rev_append)
  then have split: "nm = pre @ ds" by (simp only: takeWhile_dropWhile_id rev_rev_ident)
  have "pre = [] \<or> \<not> is_digit (last pre)"
  proof (cases "pre = []")
    case False
    then have d: "dropWhile is_digit (rev nm) \<noteq> []" by (simp add: pre_def)
    then have "\<not> is_digit (hd (dropWhile is_digit (rev nm)))" by (rule hd_dropWhile)
    moreover have "last pre = hd (dropWhile is_digit (rev nm))"
      using d by (simp add: pre_def last_rev)
    ultimately show ?thesis by simp
  qed simp
  with ne all split show "ds \<noteq> [] \<and> list_all is_digit ds
      \<and> (\<exists>pre. nm = pre @ ds \<and> (pre = [] \<or> \<not> is_digit (last pre)))" by blast
next
  assume "ds \<noteq> [] \<and> list_all is_digit ds
      \<and> (\<exists>pre. nm = pre @ ds \<and> (pre = [] \<or> \<not> is_digit (last pre)))"
  then obtain pre where ne: "ds \<noteq> []" and all: "list_all is_digit ds" and nm: "nm = pre @ ds"
    and pre: "pre = [] \<or> \<not> is_digit (last pre)" by blast
  have a: "\<forall>x\<in>set (rev ds). is_digit x" using all by (simp add: list_all_iff)
  have b: "takeWhile is_digit (rev pre) = []"
  proof (cases "pre = []")
    case False
    with pre have "\<not> is_digit (hd (rev pre))" by (simp add: hd_rev)
    with False show ?thesis by (cases "rev pre") simp_all
  qed simp
  have "takeWhile is_digit (rev ds @ rev pre) = rev ds @ takeWhile is_digit (rev pre)"
    by (rule takeWhile_append2) (use a in blast)
  then have "takeWhile is_digit (rev nm) = rev ds @ takeWhile is_digit (rev pre)"
    by (simp add: nm)
  with b have "rev (takeWhile is_digit (rev nm)) = ds" by simp
  with ne show "exec_digits nm = Some ds" by (simp add: exec_digits_def Let_def)
qed

lemma Rsa_exportKey_jwk_completion:
  "snd (Rsa_exportKey c ''jwk'' key) = (None, None) \<Longrightarrow> False"
  by (auto simp: Rsa_exportKey_def Let_def toLocaleLowerCase_def toLowerCase_char_def
      failure_def success_def simp del: encode_props.simps split: sum.splits)

lemma variant_exportKey_jwk_alg:
  assumes "fst (snd (variant_exportKey f pu pr c ''jwk'' key)) = None"
  shows "\<exists>nm ds. hash (algorithm key) = Some nm \<and> exec_digits nm = Some ds
           \<and> map_option (\<lambda>jwk. props jwk ''alg'') (snd (snd (variant_exportKey f pu pr c ''jwk'' key)))
               = Some (Str (f ds))"
proof -
  obtain e d where r: "snd (Rsa_exportKey c ''jwk'' key) = (e, d)" by (cases "snd (Rsa_exportKey c ''jwk'' key)")
  with assms have e: "e = None"
    by (auto simp: variant_exportKey_def exportKey_callback_def Let_def split: option.splits)
  with r Rsa_exportKey_jwk_completion [of c key] obtain jwk where d: "d = Some jwk"
    by (cases d) auto
  from assms r e d show ?thesis
    by (auto simp: variant_exportKey_def exportKey_callback_def Let_def failure_def success_def
        set_prop_def split: option.splits)
qed

lemma RsaOAEP_alg_eq:
  "RsaOAEP_alg ds = (if ds = ''1'' then ''RSA-OAEP'' else ''RSA-OAEP-'' @ ds)"
  by (simp add: RsaOAEP_alg_def)

lemma RsaPKCS1_exportKey_jwk_alg:
  "fst (snd (RsaPKCS1_exportKey c ''jwk'' key)) = None \<longrightarrow>
      (\<exists>nm ds. hash (algorithm key) = Some nm \<and> exec_digits nm = Some ds
         \<and> map_option (\<lambda>jwk. props jwk ''alg'') (snd (snd (RsaPKCS1_exportKey c ''jwk'' key)))
             = Some (Str (''RS'' @ ds)))"
  unfolding RsaPKCS1_exportKey_def
  by (rule impI)
    (rule variant_exportKey_jwk_alg [where f = "\<lambda>ds. ''RS'' @ ds"])

lemma RsaPSS_exportKey_jwk_alg:
  "fst (snd (RsaPSS_exportKey c ''jwk'' key)) = None \<longrightarrow>
      (\<exists>nm ds. hash (algorithm key) = Some nm \<and> exec_digits nm = Some ds
         \<and> map_option (\<lambda>jwk. props jwk ''alg'') (snd (snd (RsaPSS_exportKey c ''jwk'' key)))
             = Some (Str (''PS'' @ ds)))"
  unfolding RsaPSS_exportKey_def
  by (rule impI)
    (rule variant_exportKey_jwk_alg [where f = "\<lambda>ds. ''PS'' @ ds"])

lemma RsaOAEP_exportKey_jwk_alg:
  "fst (snd (RsaOAEP_exportKey c ''jwk'' key)) = None \<longrightarrow>
      (\<exists>nm ds. hash (algorithm key) = Some nm \<and> exec_digits nm = Some ds
         \<and> map_option (\<lambda>jwk. props jwk ''alg'') (snd (snd (RsaOAEP_exportKey c ''jwk'' key)))
             = Some (Str (if ds = ''1'' then ''RSA-OAEP'' else ''RSA-OAEP-'' @ ds)))"
  unfolding RsaOAEP_exportKey_def RsaOAEP_alg_eq [symmetric]
  by (rule impI) (rule variant_exportKey_jwk_alg [where f = RsaOAEP_alg])

lemma exec_digits_iff_all:
  "\<forall>nm ds. (exec_digits nm = Some ds) =
         (ds \<noteq> [] \<and> list_all is_digit ds
          \<and> (\<exists>pre. nm = pre @ ds \<and> (pre = [] \<or> \<not> is_digit (last pre))))"
  by (intro allI) (rule exec_digits_iff)

text \<open>
  Claim C8. When \<open>exportKey("jwk", key)\<close> of a variant completes without an error,
  the key has a hash name, the name ends in digits \<open>ds\<close>, and the exported object's
  \<open>alg\<close> is \<open>"RS" + ds\<close> for RsaPKCS1, \<open>"PS" + ds\<close> for RsaPSS, and for RsaOAEP
  \<open>"RSA-OAEP"\<close> when \<open>ds\<close> is \<open>"1"\<close> and \<open>"RSA-OAEP-" + ds\<close> otherwise.
\<close>

theorem exportKey_jwk_alg:
  "(fst (snd (RsaPKCS1_exportKey c ''jwk'' key)) = None \<longrightarrow>
      (\<exists>nm ds. hash (algorithm key) = Some nm \<and> exec_digits nm = Some ds
         \<and> map_option (\<lambda>jwk. props jwk ''alg'') (snd (snd (RsaPKCS1_exportKey c ''jwk'' key)))
             = Some (Str (''RS'' @ ds))))
   \<and> (fst (snd (RsaPSS_exportKey c ''jwk'' key)) = None \<longrightarrow>
      (\<exists>nm ds. hash (algorithm key) = Some nm \<and> exec_digits nm = Some ds
         \<and> map_option (\<lambda>jwk. props jwk ''alg'') (snd (snd (RsaPSS_exportKey c ''jwk'' key)))
             = Some (Str (''PS'' @ ds))))
   \<and> (fst (snd (RsaOAEP_exportKey c ''jwk'' key)) = None \<longrightarrow>
      (\<exists>nm ds. hash (algorithm key) = Some nm \<and> exec_digits nm = Some ds
         \<and> map_option (\<lambda>jwk. props jwk ''alg'') (snd (snd (RsaOAEP_exportKey c ''jwk'' key)))
             = Some (Str (if ds = ''1'' then ''RSA-OAEP'' else ''RSA-OAEP-'' @ ds))))
   \<and> (\<forall>nm ds. (exec_digits nm = Some ds) =
         (ds \<noteq> [] \<and> list_all is_digit ds
          \<and> (\<exists>pre. nm = pre @ ds \<and> (pre = [] \<or> \<not> is_digit (last pre)))))"
  by (intro conjI RsaPKCS1_exportKey_jwk_alg RsaPSS_exportKey_jwk_alg RsaOAEP_exportKey_jwk_alg
      exec_digits_iff_all)

lemma sample_export_ok:
  "fst (snd (variant_exportKey f pu pr sample_collaborators ''jwk'' sample_public_key)) = None"
  by (simp add: variant_exportKey_def exportKey_callback_def
      Rsa_exportKey_def sample_simps check_simps success_def failure_def Let_def
      set_prop_def exec_digits_def is_digit_def)

lemma sample_sha1_export_ok:
  "fst (snd (variant_exportKey f pu pr sample_collaborators ''jwk'' sample_sha1_key)) = None"
  by (simp add: variant_exportKey_def exportKey_callback_def sample_sha1_key_def
      Rsa_exportKey_def sample_simps check_simps success_def failure_def Let_def
      set_prop_def exec_digits_def is_digit_def)

text \<open>
  On the sample engine: SHA-256 gives \<open>RS256\<close>, \<open>PS256\<close> and \<open>RSA-OAEP-256\<close>;
  SHA-1 gives the bare \<open>RSA-OAEP\<close>.
\<close>

theorem exportKey_jwk_alg_witness:
  "map_option (\<lambda>jwk. props jwk ''alg'')
       (snd (snd (RsaPKCS1_exportKey sample_collaborators ''jwk'' sample_public_key)))
     = Some (Str ''RS256'')
   \<and> map_option (\<lambda>jwk. props jwk ''alg'')
       (snd (snd (RsaPSS_exportKey sample_collaborators ''jwk'' sample_public_key)))
     = Some (Str ''PS256'')
   \<and> map_option (\<lambda>jwk. props jwk ''alg'')
       (snd (snd (RsaOAEP_exportKey sample_collaborators ''jwk'' sample_public_key)))
     = Some (Str ''RSA-OAEP-256'')
   \<and> map_option (\<lambda>jwk. props jwk ''alg'')
       (snd (snd (RsaOAEP_exportKey sample_collaborators ''jwk'' sample_sha1_key)))
     = Some (Str ''RSA-OAEP'')"
proof -
  have h: "hash (algorithm sample_public_key) = Some ''SHA-256''"
    "hash (algorithm sample_sha1_key) = Some ''SHA-1''"
    by (simp_all add: sample_simps sample_sha1_key_def)
  have d: "exec_digits ''SHA-256'' = Some ''256''" "exec_digits ''SHA-1'' = Some ''1''"
    by (simp_all add: exec_digits_def is_digit_def)
  have ok: "fst (snd (RsaPKCS1_exportKey sample_collaborators ''jwk'' sample_public_key)) = None"
    "fst (snd (RsaPSS_exportKey sample_collaborators ''jwk'' sample_public_key)) = None"
    "fst (snd (RsaOAEP_exportKey sample_collaborators ''jwk'' sample_public_key)) = None"
    "fst (snd (RsaOAEP_exportKey sample_collaborators ''jwk'' sample_sha1_key)) = None"
    by (simp_all add: RsaPKCS1_exportKey_def RsaPSS_exportKey_def RsaOAEP_exportKey_def
        sample_export_ok sample_sha1_export_ok)
  note a = exportKey_jwk_alg [of sample_collaborators sample_public_key]
  note b = exportKey_jwk_alg [of sample_collaborators sample_sha1_key]
  from a [THEN conjunct1, rule_format, OF ok(1)]
  obtain nm1 ds1 where x1: "hash (algorithm sample_public_key) = Some nm1" "exec_digits nm1 = Some ds1"
    "map_option (\<lambda>jwk. props jwk ''alg'')
       (snd (snd (RsaPKCS1_exportKey sample_collaborators ''jwk'' sample_public_key)))
     = Some (Str (''RS'' @ ds1))" by blast
  from x1(1) h(1) have "nm1 = ''SHA-256''" by simp
  with x1(2) d(1) have "ds1 = ''256''" by simp
  with x1(3) have 1: "map_option (\<lambda>jwk. props jwk ''alg'')
       (snd (snd (RsaPKCS1_exportKey sample_collaborators ''jwk'' sample_public_key)))
     = Some (Str ''RS256'')" by simp
  from a [THEN conjunct2, THEN conjunct1, rule_format, OF ok(2)]
  obtain nm2 ds2 where x2: "hash (algorithm sample_public_key) = Some nm2" "exec_digits nm2 = Some ds2"
    "map_option (\<lambda>jwk. props jwk ''alg'')
       (snd (snd (RsaPSS_exportKey sample_collaborators ''jwk'' sample_public_key)))
     = Some (Str (''PS'' @ ds2))" by blast
  from x2(1) h(1) have "nm2 = ''SHA-256''" by simp
  with x2(2) d(1) have "ds2 = ''256''" by simp
  with x2(3) have 2: "map_option (\<lambda>jwk. props jwk ''alg'')
       (snd (snd (RsaPSS_exportKey sample_collaborators ''jwk'' sample_public_key)))
     = Some (Str ''PS256'')" by simp
  from a [THEN conjunct2, THEN conjunct2, THEN conjunct1, rule_format, OF ok(3)]
  obtain nm3 ds3 where x3: "hash (algorithm sample_public_key) = Some nm3" "exec_digits nm3 = Some ds3"
    "map_option (\<lambda>jwk. props jwk ''alg'')
       (snd (snd (RsaOAEP_exportKey sample_collaborators ''jwk'' sample_public_key)))
     = Some (Str (if ds3 = ''1'' then ''RSA-OAEP'' else ''RSA-OAEP-'' @ ds3))" by blast
  from x3(1) h(1) have "nm3 = ''SHA-256''" by simp
  with x3(2) d(1) have "ds3 = ''256''" by simp
  with x3(3) have 3: "map_option (\<lambda>jwk. props jwk ''alg'')
       (snd (snd (RsaOAEP_exportKey sample_collaborators ''jwk'' sample_public_key)))
     = Some (Str ''RSA-OAEP-256'')" by simp
  from b [THEN conjunct2, THEN conjunct2, THEN conjunct1, rule_format, OF ok(4)]
  obtain nm4 ds4 where x4: "hash (algorithm sample_sha1_key) = Some nm4" "exec_digits nm4 = Some ds4"
    "map_option (\<lambda>jwk. props jwk ''alg'')
       (snd (snd (RsaOAEP_exportKey sample_collaborators ''jwk'' sample_sha1_key)))
     = Some (Str (if ds4 = ''1'' then ''RSA-OAEP'' else ''RSA-OAEP-'' @ ds4))" by blast
  from x4(1) h(2) have "nm4 = ''SHA-1''" by simp
  with x4(2) d(2) have "ds4 = ''1''" by simp
  with x4(3) have 4: "map_option (\<lambda>jwk. props jwk ''alg'')
       (snd (snd (RsaOAEP_exportKey sample_collaborators ''jwk'' sample_sha1_key)))
     = Some (Str ''RSA-OAEP'')" by simp
  from 1 2 3 4 show ?thesis by blast
qed

section \<open>Verification: an invalid signature\<close>







section \<open>Import: the caller's JWK object\<close>





end
